theory Spec2Isabelle
  imports Main "HOL-Library.Word"
begin

section \<open>The session supervisor: \<open>source/host/win/host.cc\<close>\<close>

text \<open>
  \<open>Host\<close> is a single-threaded, event-driven object: every method runs to completion
  on the event loop. Each method becomes a function from the object to the object after
  the call. What the object does to its collaborators (the Qt timer registry, the IPC
  server, the worker process, the two channels, its owner) is appended to a log of
  effects, in program order.
\<close>

subsection \<open>Data\<close>

text \<open>\<open>enum State\<close>; the four enumerators are the ones \<open>host.cc\<close> names.\<close>

datatype State = StoppedState | StartingState | DetachedState | AttachedState

text \<open>
  \<open>proto::auth::SessionType\<close> is a protobuf enum, that is an integer with three named
  values used here; every other value is kept as \<open>SESSION_TYPE_OTHER n\<close> and reaches
  the \<open>default:\<close> branch of the switch in \<open>ipcServerStarted\<close>.
\<close>

datatype SessionType =
    SESSION_TYPE_DESKTOP_MANAGE
  | SESSION_TYPE_DESKTOP_VIEW
  | SESSION_TYPE_FILE_TRANSFER
  | SESSION_TYPE_OTHER int

text \<open>\<open>HostProcess::Account\<close>.\<close>

datatype Account = Account_System | Account_User

type_synonym quint32 = "32 word"
type_synonym QByteArray = "8 word list"

text \<open>Objects the host only holds pointers to are handles.\<close>

type_synonym IpcChannel = nat
type_synonym NetworkChannel = nat

text \<open>
  \<open>HostProcess\<close>, as far as \<open>ipcServerStarted\<close> configures it. A field the host has
  not set yet is \<open>None\<close>; a fresh \<open>QStringList\<close> is empty.
\<close>

record HostProcess =
  hp_session_id :: "quint32 option"
  hp_program :: "string option"
  hp_account :: "Account option"
  hp_arguments :: "string list"

definition new_HostProcess :: HostProcess where
  "new_HostProcess =
     \<lparr>hp_session_id = None, hp_program = None, hp_account = None, hp_arguments = []\<rparr>"

text \<open>What the host asks of the outside, one entry per call, in program order.\<close>

datatype effect =
    StartTimer int                  \<comment> \<open>\<open>startTimer(1 min)\<close> and the id it returned\<close>
  | KillTimer int                   \<comment> \<open>\<open>killTimer(id)\<close>\<close>
  | Warning string                  \<comment> \<open>\<open>qWarning\<close>\<close>
  | EmitFinished                    \<comment> \<open>\<open>emit finished(this)\<close>\<close>
  | NewIpcServer                    \<comment> \<open>\<open>new IpcServer(this)\<close>\<close>
  | IpcServerStart                  \<comment> \<open>\<open>ipc_server->start()\<close>\<close>
  | ProcessStart HostProcess        \<comment> \<open>\<open>session_process_->start()\<close>\<close>
  | ProcessKill                     \<comment> \<open>\<open>session_process_->kill()\<close>\<close>
  | ProcessDelete                   \<comment> \<open>\<open>delete session_process_\<close>\<close>
  | IpcChannelDelete IpcChannel     \<comment> \<open>\<open>delete ipc_channel_\<close> on a live channel\<close>
  | IpcReadMessage                  \<comment> \<open>\<open>ipc_channel_->readMessage()\<close>\<close>
  | IpcWriteMessage int QByteArray  \<comment> \<open>\<open>ipc_channel_->writeMessage(id, buffer)\<close>\<close>
  | NetReadMessage                  \<comment> \<open>\<open>network_channel_->readMessage()\<close>\<close>
  | NetWriteMessage int QByteArray  \<comment> \<open>\<open>network_channel_->writeMessage(id, buffer)\<close>\<close>

text \<open>How a call can end the program instead of returning.\<close>

datatype error =
    AssertFailed string   \<comment> \<open>a \<open>Q_ASSERT\<close> that fails in a debug build\<close>
  | Fatal string          \<comment> \<open>\<open>qFatal\<close>\<close>
  | NullDereference       \<comment> \<open>a method called through a null pointer\<close>

text \<open>
  The object and the part of its environment its methods read and write.
  The first six fields are the members of the class; \<open>QPointer\<close> members are options
  (a \<open>QPointer\<close> is null once its object is deleted). \<open>active_timers\<close> is the set of
  timers Qt has running for this object. \<open>timer_supply\<close> is what the successive calls of
  \<open>startTimer\<close> are going to return (0 means that Qt could not start a timer); the
  environment chooses it.
\<close>

record Host =
  session_type :: SessionType
  network_channel :: "NetworkChannel option"
  state :: State
  session_id :: quint32
  attach_timer_id :: int
  session_process :: "HostProcess option"
  ipc_channel :: "IpcChannel option"
  active_timers :: "int list"
  timer_supply :: "int list"
  effects :: "effect list"

subsection \<open>Qt primitives\<close>

definition log :: "effect list \<Rightarrow> Host \<Rightarrow> Host" where
  "log es h = h\<lparr>effects := effects h @ es\<rparr>"

text \<open>\<open>QObject::startTimer\<close>: a new running timer and its non-zero id, or 0.\<close>

definition startTimer :: "Host \<Rightarrow> int \<times> Host" where
  "startTimer h =
     (case timer_supply h of
        [] \<Rightarrow> (0, log [StartTimer 0] h)
      | t # ts \<Rightarrow>
          (t, log [StartTimer t]
                (h\<lparr>timer_supply := ts,
                   active_timers := (if t = 0 then active_timers h
                                     else active_timers h @ [t])\<rparr>)))"

text \<open>\<open>QObject::killTimer\<close>: the timer with this id no longer runs.\<close>

definition killTimer :: "int \<Rightarrow> Host \<Rightarrow> Host" where
  "killTimer tid h = log [KillTimer tid] (h\<lparr>active_timers := removeAll tid (active_timers h)\<rparr>)"

subsection \<open>\<open>Host::stop\<close> and \<open>Host::dettachSession\<close>\<close>

text \<open>
  The two methods call each other. \<open>stop\<close> calls \<open>dettachSession\<close> and then goes on;
  \<open>dettachSession\<close> calls \<open>stop\<close> for a file transfer session and when no timer could be
  started, after it has set the state to \<open>DetachedState\<close>.
\<close>

function stop :: "Host \<Rightarrow> Host"
  and dettachSession :: "Host \<Rightarrow> Host" where
  "stop h =
     (if state h = StoppedState then h
      else
        let h1 = dettachSession h;
            h2 = h1\<lparr>state := StoppedState\<rparr>;
            h3 = (if attach_timer_id h2 \<noteq> 0
                  then (killTimer (attach_timer_id h2) h2)\<lparr>attach_timer_id := 0\<rparr>
                  else h2)
        in log [EmitFinished] h3)"
| "dettachSession h =
     (if state h = StoppedState \<or> state h = DetachedState then h
      else
        let h1 = h\<lparr>state := DetachedState\<rparr>;
            h2 = (if session_process h1 \<noteq> None
                  then log [ProcessKill, ProcessDelete] (h1\<lparr>session_process := None\<rparr>)
                  else h1);
            h3 = (case ipc_channel h2 of
                    None \<Rightarrow> h2
                  | Some c \<Rightarrow> log [IpcChannelDelete c] (h2\<lparr>ipc_channel := None\<rparr>))
        in if session_type h3 = SESSION_TYPE_FILE_TRANSFER then stop h3
           else
             let h4 = (snd (startTimer h3))\<lparr>attach_timer_id := fst (startTimer h3)\<rparr>
             in if attach_timer_id h4 = 0
                then stop (log [Warning ''Could not start the timer''] h4)
                else h4)"
  by pat_completeness auto

termination
  by (relation "measure (\<lambda>x. case x of
           Inl h \<Rightarrow> (if state h = StoppedState then 0
                    else if state h = DetachedState then 2 else 4)
         | Inr h \<Rightarrow> (if state h = StoppedState \<or> state h = DetachedState then 1 else 3))")
     (auto simp: log_def startTimer_def split: option.splits list.splits)

subsection \<open>The attach sequence\<close>

text \<open>
  \<open>Host::attachSession\<close>. The server is a local of the method, owned by the Qt object
  tree; the host keeps no pointer to it. Its signals come back as the events
  \<open>ipcServerStarted\<close>, \<open>ipcNewConnection\<close> and (on error) \<open>stop\<close>.
\<close>

definition attachSession :: "quint32 \<Rightarrow> Host \<Rightarrow> Host" where
  "attachSession sid h =
     log [NewIpcServer, IpcServerStart] (h\<lparr>state := StartingState, session_id := sid\<rparr>)"

text \<open>
  \<open>Host::start\<close>. \<open>console\<close> is what \<open>WTSGetActiveConsoleSessionId()\<close> returns.
\<close>

definition start :: "quint32 \<Rightarrow> Host \<Rightarrow> Host" where
  "start console h =
     (let h1 = h\<lparr>state := StartingState\<rparr>;
          h2 = (snd (startTimer h1))\<lparr>attach_timer_id := fst (startTimer h1)\<rparr>
      in if attach_timer_id h2 = 0
         then stop (log [Warning ''Could not start the timer''] h2)
         else attachSession console h2)"

text \<open>The two event codes of the Windows SDK that \<open>sessionChanged\<close> switches on.\<close>

definition WTS_CONSOLE_CONNECT :: quint32 where
  "WTS_CONSOLE_CONNECT = 1"

definition WTS_CONSOLE_DISCONNECT :: quint32 where
  "WTS_CONSOLE_DISCONNECT = 2"

definition sessionChanged :: "quint32 \<Rightarrow> quint32 \<Rightarrow> Host \<Rightarrow> Host" where
  "sessionChanged event sid h =
     (if state h \<noteq> AttachedState \<and> state h \<noteq> DetachedState then h
      else if event = WTS_CONSOLE_CONNECT then attachSession sid h
      else if event = WTS_CONSOLE_DISCONNECT then dettachSession h
      else h)"

definition timerEvent :: "int \<Rightarrow> Host \<Rightarrow> Host" where
  "timerEvent timerId h = (if timerId = attach_timer_id h then stop h else h)"

text \<open>
  \<open>Host::ipcServerStarted\<close>. \<open>dbg\<close> says whether the build keeps \<open>Q_ASSERT\<close>
  (a debug build aborts on a failed assertion, a release build compiles the macro away);
  \<open>app_dir\<close> is \<open>QCoreApplication::applicationDirPath()\<close>. \<open>qFatal\<close> ends the
  program in every build.
\<close>

definition launch :: "HostProcess \<Rightarrow> string list \<Rightarrow> Host \<Rightarrow> Host" where
  "launch p arguments h =
     log [ProcessStart (p\<lparr>hp_arguments := arguments\<rparr>)]
       (h\<lparr>session_process := Some (p\<lparr>hp_arguments := arguments\<rparr>)\<rparr>)"

definition ipcServerStarted :: "bool \<Rightarrow> string \<Rightarrow> string \<Rightarrow> Host \<Rightarrow> error + Host" where
  "ipcServerStarted dbg app_dir channel_id h =
     (if dbg \<and> state h \<noteq> StartingState
        then Inl (AssertFailed ''state_ == StartingState'')
      else if dbg \<and> session_process h \<noteq> None
        then Inl (AssertFailed ''session_process_.isNull()'')
      else
        let p = new_HostProcess
                  \<lparr>hp_session_id := Some (session_id h),
                   hp_program := Some (app_dir @ ''/aspia_host.exe'')\<rparr>;
            arguments = [''--channel_id'', channel_id, ''--session_type'']
        in case session_type h of
             SESSION_TYPE_DESKTOP_MANAGE \<Rightarrow>
               Inr (launch (p\<lparr>hp_account := Some Account_System\<rparr>) (arguments @ [''desktop_manage'']) h)
           | SESSION_TYPE_DESKTOP_VIEW \<Rightarrow>
               Inr (launch (p\<lparr>hp_account := Some Account_System\<rparr>) (arguments @ [''desktop_view'']) h)
           | SESSION_TYPE_FILE_TRANSFER \<Rightarrow>
               Inr (launch (p\<lparr>hp_account := Some Account_User\<rparr>) (arguments @ [''file_transfer'']) h)
           | SESSION_TYPE_OTHER n \<Rightarrow> Inl (Fatal ''Unknown session type''))"

text \<open>
  \<open>Host::ipcNewConnection\<close>. In a release build a null \<open>channel\<close> gets as far as
  \<open>ipc_channel_->readMessage()\<close>, and a null network channel as far as
  \<open>network_channel_->readMessage()\<close>.
\<close>

definition ipcNewConnection :: "bool \<Rightarrow> IpcChannel option \<Rightarrow> Host \<Rightarrow> error + Host" where
  "ipcNewConnection dbg channel h =
     (if dbg \<and> channel = None then Inl (AssertFailed ''channel'')
      else if dbg \<and> attach_timer_id h = 0 then Inl (AssertFailed ''attach_timer_id_'')
      else
        let h1 = (killTimer (attach_timer_id h) h)\<lparr>attach_timer_id := 0\<rparr>;
            h2 = h1\<lparr>ipc_channel := channel\<rparr>;
            h3 = h2\<lparr>state := AttachedState\<rparr>
        in if ipc_channel h3 = None then Inl NullDereference
           else if network_channel h3 = None then Inl NullDereference
           else Inr (log [IpcReadMessage, NetReadMessage] h3))"

subsection \<open>The relay\<close>

definition networkMessageWritten :: "int \<Rightarrow> Host \<Rightarrow> Host" where
  "networkMessageWritten message_id h =
     (if ipc_channel h \<noteq> None then log [IpcReadMessage] h else h)"

definition networkMessageReceived :: "QByteArray \<Rightarrow> Host \<Rightarrow> Host" where
  "networkMessageReceived buffer h =
     (if ipc_channel h \<noteq> None then log [IpcWriteMessage (- 1) buffer] h else h)"

definition ipcMessageWritten :: "int \<Rightarrow> Host \<Rightarrow> Host" where
  "ipcMessageWritten message_id h =
     (if network_channel h \<noteq> None then log [NetReadMessage] h else h)"

definition ipcMessageReceived :: "QByteArray \<Rightarrow> Host \<Rightarrow> Host" where
  "ipcMessageReceived buffer h =
     (if network_channel h \<noteq> None then log [NetWriteMessage (- 1) buffer] h else h)"

subsection \<open>Construction and the wiring of signals to slots\<close>

text \<open>
  A host right after its constructor: the two \<open>QPointer\<close> members of the class that the
  constructor does not set are null, no timer runs, nothing has been done yet.
  \<open>state_\<close>, \<open>session_id_\<close> and \<open>attach_timer_id_\<close> get their first values in
  \<open>host.h\<close>, which is not part of the sources, so they are parameters here.
\<close>

definition Host_new ::
  "bool \<Rightarrow> SessionType \<Rightarrow> NetworkChannel option \<Rightarrow> State \<Rightarrow> quint32 \<Rightarrow> int \<Rightarrow> int list
     \<Rightarrow> error + Host" where
  "Host_new dbg st nc state0 sid0 tid0 supply =
     (if dbg \<and> nc = None then Inl (AssertFailed ''!network_channel_.isNull()'')
      else Inr \<lparr>session_type = st, network_channel = nc, state = state0,
                session_id = sid0, attach_timer_id = tid0,
                session_process = None, ipc_channel = None,
                active_timers = [], timer_supply = supply, effects = []\<rparr>)"

text \<open>
  The notifications the event loop delivers to the host, and the slot each of them is
  connected to by the \<open>connect\<close> calls of \<open>start\<close>, \<open>attachSession\<close>,
  \<open>ipcServerStarted\<close> and \<open>ipcNewConnection\<close>. \<open>EvStart\<close>, \<open>EvStop\<close> and
  \<open>EvSessionChanged\<close> are calls of the owner.
\<close>

datatype event =
    EvStart quint32
  | EvStop
  | EvSessionChanged quint32 quint32
  | EvTimer int
  | EvNetworkDisconnected
  | EvNetworkMessageWritten int
  | EvNetworkMessageReceived QByteArray
  | EvIpcServerStarted string
  | EvIpcServerError
  | EvIpcNewConnection "IpcChannel option"
  | EvIpcDisconnected
  | EvIpcMessageWritten int
  | EvIpcMessageReceived QByteArray
  | EvProcessError
  | EvProcessFinished

fun dispatch :: "bool \<Rightarrow> string \<Rightarrow> event \<Rightarrow> Host \<Rightarrow> error + Host" where
  "dispatch dbg dir (EvStart console) h = Inr (start console h)"
| "dispatch dbg dir EvStop h = Inr (stop h)"
| "dispatch dbg dir (EvSessionChanged event sid) h = Inr (sessionChanged event sid h)"
| "dispatch dbg dir (EvTimer timerId) h = Inr (timerEvent timerId h)"
| "dispatch dbg dir EvNetworkDisconnected h = Inr (stop h)"
| "dispatch dbg dir (EvNetworkMessageWritten n) h = Inr (networkMessageWritten n h)"
| "dispatch dbg dir (EvNetworkMessageReceived b) h = Inr (networkMessageReceived b h)"
| "dispatch dbg dir (EvIpcServerStarted channel_id) h = ipcServerStarted dbg dir channel_id h"
| "dispatch dbg dir EvIpcServerError h = Inr (stop h)"
| "dispatch dbg dir (EvIpcNewConnection channel) h = ipcNewConnection dbg channel h"
| "dispatch dbg dir EvIpcDisconnected h = Inr (dettachSession h)"
| "dispatch dbg dir (EvIpcMessageWritten n) h = Inr (ipcMessageWritten n h)"
| "dispatch dbg dir (EvIpcMessageReceived b) h = Inr (ipcMessageReceived b h)"
| "dispatch dbg dir EvProcessError h = Inr (stop h)"
| "dispatch dbg dir EvProcessFinished h = Inr (dettachSession h)"

text \<open>The events of a list, one after the other; the first failure ends the run.\<close>

fun run :: "bool \<Rightarrow> string \<Rightarrow> event list \<Rightarrow> Host \<Rightarrow> error + Host" where
  "run dbg dir [] h = Inr h"
| "run dbg dir (e # es) h =
     (case dispatch dbg dir e h of Inl err \<Rightarrow> Inl err | Inr h' \<Rightarrow> run dbg dir es h')"

text \<open>What a call has added to the log.\<close>

definition emitted :: "Host \<Rightarrow> Host \<Rightarrow> effect list" where
  "emitted h h' = drop (length (effects h)) (effects h')"

subsection \<open>The relay and its two endpoints\<close>

text \<open>
  Modelled from the spec: the books of the two endpoints, \<open>NetworkChannel\<close> and
  \<open>IpcChannel\<close> (\<open>network/network_channel.cc\<close>, \<open>ipc/ipc_channel.cc\<close>), which
  are not part of the sources. The spec gives both the same contract: asynchronous
  read-one-message and write-one-message with completion notifications. \<open>Links\<close>
  holds, for each endpoint, the read requests not answered yet and the messages written
  to it whose completion the host has not seen yet (the unacknowledged messages:
  \<open>ipc_writes\<close> for the direction network to IPC, \<open>net_writes\<close> for the direction
  IPC to network).
\<close>

record Links =
  net_reads :: nat
  net_writes :: "QByteArray list"
  ipc_reads :: nat
  ipc_writes :: "QByteArray list"

definition no_links :: Links where
  "no_links = \<lparr>net_reads = 0, net_writes = [], ipc_reads = 0, ipc_writes = []\<rparr>"

text \<open>
  Modelled from the spec: what the contract lets the event loop deliver. An endpoint
  reports \<open>messageReceived\<close> only in answer to a \<open>readMessage\<close> not answered yet,
  and \<open>messageWritten\<close> only for a \<open>writeMessage\<close> not reported yet.
\<close>

fun permitted :: "event \<Rightarrow> Links \<Rightarrow> bool" where
  "permitted (EvNetworkMessageReceived b) l = (0 < net_reads l)"
| "permitted (EvNetworkMessageWritten n) l = (net_writes l \<noteq> [])"
| "permitted (EvIpcMessageReceived b) l = (0 < ipc_reads l)"
| "permitted (EvIpcMessageWritten n) l = (ipc_writes l \<noteq> [])"
| "permitted e l = True"

text \<open>
  Modelled from the spec: what the delivery uses up. The channel handed over by
  \<open>ipcNewConnection\<close> is a new one: nothing has been asked of it yet.
\<close>

fun consume :: "event \<Rightarrow> Links \<Rightarrow> Links" where
  "consume (EvNetworkMessageReceived b) l = l\<lparr>net_reads := net_reads l - 1\<rparr>"
| "consume (EvNetworkMessageWritten n) l = l\<lparr>net_writes := tl (net_writes l)\<rparr>"
| "consume (EvIpcMessageReceived b) l = l\<lparr>ipc_reads := ipc_reads l - 1\<rparr>"
| "consume (EvIpcMessageWritten n) l = l\<lparr>ipc_writes := tl (ipc_writes l)\<rparr>"
| "consume (EvIpcNewConnection c) l = l\<lparr>ipc_reads := 0, ipc_writes := []\<rparr>"
| "consume e l = l"

text \<open>What a call of the host asks of the endpoints.\<close>

fun request :: "effect \<Rightarrow> Links \<Rightarrow> Links" where
  "request NetReadMessage l = l\<lparr>net_reads := net_reads l + 1\<rparr>"
| "request (NetWriteMessage n b) l = l\<lparr>net_writes := net_writes l @ [b]\<rparr>"
| "request IpcReadMessage l = l\<lparr>ipc_reads := ipc_reads l + 1\<rparr>"
| "request (IpcWriteMessage n b) l = l\<lparr>ipc_writes := ipc_writes l @ [b]\<rparr>"
| "request (IpcChannelDelete c) l = l\<lparr>ipc_reads := 0, ipc_writes := []\<rparr>"
| "request e l = l"

fun requests :: "effect list \<Rightarrow> Links \<Rightarrow> Links" where
  "requests [] l = l"
| "requests (e # es) l = requests es (request e l)"

text \<open>
  The host together with its endpoints. \<open>None\<close>: the event loop cannot deliver the
  next event of the list, or the program has ended.
\<close>

fun relay_run :: "bool \<Rightarrow> string \<Rightarrow> event list \<Rightarrow> Host \<times> Links \<Rightarrow> (Host \<times> Links) option" where
  "relay_run dbg dir [] s = Some s"
| "relay_run dbg dir (e # es) (h, l) =
     (if \<not> permitted e l then None
      else case dispatch dbg dir e h of
             Inl err \<Rightarrow> None
           | Inr h' \<Rightarrow> relay_run dbg dir es (h', requests (emitted h h') (consume e l)))"



section \<open>The credential record: \<open>source/host/user.cc\<close>\<close>

text \<open>
  A \<open>QString\<close> is a sequence of UTF-16 code units (\<open>QChar\<close>), and its \<open>length()\<close>
  counts them; a \<open>std::string\<close> is a sequence of bytes.
\<close>

type_synonym QChar = "16 word"
type_synonym QString = "QChar list"
type_synonym std_string = "8 word list"

text \<open>
  The four constants of \<open>class User\<close> are declared in \<open>host/user.h\<close>, which is not
  part of the sources; they are parameters.
\<close>

record UserConsts =
  kMaxUserNameLength :: int
  kMinPasswordLength :: int
  kMaxPasswordLength :: int
  kPasswordHashLength :: nat

text \<open>
  \<open>isLetter\<close> and \<open>isDigit\<close> are the two character classes of \<open>QChar\<close> (Qt's Unicode
  tables), parameters here. The three literals are \<open>'.'\<close>, \<open>'_'\<close> and \<open>'-'\<close>.
\<close>

definition isValidUserNameChar :: "(QChar \<Rightarrow> bool) \<Rightarrow> (QChar \<Rightarrow> bool) \<Rightarrow> QChar \<Rightarrow> bool" where
  "isValidUserNameChar isLetter isDigit username_char =
     (if isLetter username_char then True
      else if isDigit username_char then True
      else if username_char = 0x2E \<or> username_char = 0x5F \<or> username_char = 0x2D then True
      else False)"

definition isValidPasswordHash :: "UserConsts \<Rightarrow> std_string \<Rightarrow> bool" where
  "isValidPasswordHash C password_hash =
     (if length password_hash \<noteq> kPasswordHashLength C then False else True)"

definition kIterCount :: int where
  "kIterCount = 100000"

text \<open>
  The loop of \<open>createPasswordHash\<close>. \<open>hash\<close> is \<open>Sha512::hash\<close> (\<open>crypto/sha.h\<close>, not
  part of the sources). The number that travels with the data counts the calls of
  \<open>hash\<close>.
\<close>

function createPasswordHash_loop ::
  "(std_string \<Rightarrow> std_string) \<Rightarrow> int \<Rightarrow> std_string \<times> nat \<Rightarrow> std_string \<times> nat" where
  "createPasswordHash_loop hash i (data, calls) =
     (if i < kIterCount
      then createPasswordHash_loop hash (i + 1) (hash data, Suc calls)
      else (data, calls))"
  by pat_completeness auto

termination
  by (relation "measure (\<lambda>(hash, i, d). nat (kIterCount - i))") auto

definition createPasswordHash ::
  "(std_string \<Rightarrow> std_string) \<Rightarrow> std_string \<Rightarrow> nat \<Rightarrow> std_string \<times> nat" where
  "createPasswordHash hash password calls = createPasswordHash_loop hash 0 (password, calls)"

text \<open>The members of \<open>class User\<close>.\<close>

record User =
  name :: QString
  password_hash :: std_string
  flags :: "32 word"
  sessions :: "32 word"

text \<open>The loop of \<open>User::isValidName\<close>, from index \<open>i\<close> on.\<close>

function isValidName_loop ::
  "(QChar \<Rightarrow> bool) \<Rightarrow> (QChar \<Rightarrow> bool) \<Rightarrow> QString \<Rightarrow> int \<Rightarrow> int \<Rightarrow> bool" where
  "isValidName_loop isLetter isDigit v len i =
     (if i < len
      then (if \<not> isValidUserNameChar isLetter isDigit (v ! nat i) then False
            else isValidName_loop isLetter isDigit v len (i + 1))
      else True)"
  by pat_completeness auto

termination
  by (relation "measure (\<lambda>(isLetter, isDigit, v, len, i). nat (len - i))") auto

definition isValidName ::
  "UserConsts \<Rightarrow> (QChar \<Rightarrow> bool) \<Rightarrow> (QChar \<Rightarrow> bool) \<Rightarrow> QString \<Rightarrow> bool" where
  "isValidName C isLetter isDigit v =
     (let len = int (length v)
      in if len \<le> 0 \<or> len > kMaxUserNameLength C then False
         else isValidName_loop isLetter isDigit v len 0)"

definition isValidPassword :: "UserConsts \<Rightarrow> QString \<Rightarrow> bool" where
  "isValidPassword C v =
     (let len = int (length v)
      in if len < kMinPasswordLength C \<or> len > kMaxPasswordLength C then False else True)"

definition setName ::
  "UserConsts \<Rightarrow> (QChar \<Rightarrow> bool) \<Rightarrow> (QChar \<Rightarrow> bool) \<Rightarrow> QString \<Rightarrow> User \<Rightarrow> bool \<times> User" where
  "setName C isLetter isDigit v u =
     (if \<not> isValidName C isLetter isDigit v then (False, u)
      else (True, u\<lparr>name := v\<rparr>))"

text \<open>
  \<open>toStdString\<close> is \<open>QString::toStdString\<close>, the UTF-8 encoding of the string.
  \<open>calls\<close> is the number of calls of \<open>hash\<close> so far; the third component of the
  result is that number after the call.
\<close>

definition setPassword ::
  "UserConsts \<Rightarrow> (std_string \<Rightarrow> std_string) \<Rightarrow> (QString \<Rightarrow> std_string) \<Rightarrow> QString
     \<Rightarrow> User \<Rightarrow> nat \<Rightarrow> bool \<times> User \<times> nat" where
  "setPassword C hash toStdString v u calls =
     (if \<not> isValidPassword C v then (False, u, calls)
      else
        let r = createPasswordHash hash (toStdString v) calls
        in (True, u\<lparr>password_hash := fst r\<rparr>, snd r))"

definition setPasswordHash :: "UserConsts \<Rightarrow> std_string \<Rightarrow> User \<Rightarrow> bool \<times> User" where
  "setPasswordHash C v u =
     (if \<not> isValidPasswordHash C v then (False, u)
      else (True, u\<lparr>password_hash := v\<rparr>))"

definition setFlags :: "32 word \<Rightarrow> User \<Rightarrow> User" where
  "setFlags v u = u\<lparr>flags := v\<rparr>"

definition setSessions :: "32 word \<Rightarrow> User \<Rightarrow> User" where
  "setSessions v u = u\<lparr>sessions := v\<rparr>"

section \<open>Concrete hosts\<close>

text \<open>
  The hosts the examples below start from. \<open>fresh_host\<close> is a host right after
  construction; \<open>start\<close> overwrites \<open>state_\<close> and \<open>attach_timer_id_\<close> before it reads
  them and \<open>attachSession\<close> overwrites \<open>session_id_\<close>, so their first values do not
  show in a run that begins with \<open>start\<close>. The other hosts are reached from it by
  the runs given with them.
\<close>

definition fresh_host :: "SessionType \<Rightarrow> int list \<Rightarrow> Host" where
  "fresh_host st supply =
     \<lparr>session_type = st, network_channel = Some 7, state = StoppedState,
      session_id = 0, attach_timer_id = 0, session_process = None, ipc_channel = None,
      active_timers = [], timer_supply = supply, effects = []\<rparr>"

definition worker :: "quint32 \<Rightarrow> Account \<Rightarrow> string \<Rightarrow> string \<Rightarrow> HostProcess" where
  "worker sid acc cid token =
     \<lparr>hp_session_id = Some sid, hp_program = Some ''C:/aspia/aspia_host.exe'',
      hp_account = Some acc,
      hp_arguments = [''--channel_id'', cid, ''--session_type'', token]\<rparr>"

definition attached_host :: "SessionType \<Rightarrow> Account \<Rightarrow> string \<Rightarrow> int list \<Rightarrow> Host" where
  "attached_host st acc token supply =
     \<lparr>session_type = st, network_channel = Some 7, state = AttachedState,
      session_id = 1, attach_timer_id = 0,
      session_process = Some (worker 1 acc ''c1'' token), ipc_channel = Some 5,
      active_timers = [], timer_supply = supply,
      effects = [StartTimer 1, NewIpcServer, IpcServerStart,
                 ProcessStart (worker 1 acc ''c1'' token),
                 KillTimer 1, IpcReadMessage, NetReadMessage]\<rparr>"

definition detached_host :: Host where
  "detached_host =
     \<lparr>session_type = SESSION_TYPE_DESKTOP_MANAGE, network_channel = Some 7,
      state = DetachedState, session_id = 1, attach_timer_id = 2,
      session_process = None, ipc_channel = None,
      active_timers = [2], timer_supply = [],
      effects = [StartTimer 1, NewIpcServer, IpcServerStart,
                 ProcessStart (worker 1 Account_System ''c1'' ''desktop_manage''),
                 KillTimer 1, IpcReadMessage, NetReadMessage,
                 ProcessKill, ProcessDelete, IpcChannelDelete 5, StartTimer 2]\<rparr>"

text \<open>The books right after an attach with nothing left over from before: one read
  asked of each endpoint, nothing written.\<close>

definition attached_links :: Links where
  "attached_links = \<lparr>net_reads = 1, net_writes = [], ipc_reads = 1, ipc_writes = []\<rparr>"

section \<open>Concrete credential records\<close>

text \<open>
  Values for the examples below: the constants as a build could set them, the ASCII part
  of the two character classes, a stand-in for the hash function and for the encoding,
  and a record.
\<close>

definition example_consts :: UserConsts where
  "example_consts =
     \<lparr>kMaxUserNameLength = 64, kMinPasswordLength = 8, kMaxPasswordLength = 64,
      kPasswordHashLength = 64\<rparr>"

definition ascii_letter :: "QChar \<Rightarrow> bool" where
  "ascii_letter c = ((0x41 \<le> c \<and> c \<le> 0x5A) \<or> (0x61 \<le> c \<and> c \<le> 0x7A))"

definition ascii_digit :: "QChar \<Rightarrow> bool" where
  "ascii_digit c = (0x30 \<le> c \<and> c \<le> 0x39)"

definition toy_hash :: "std_string \<Rightarrow> std_string" where
  "toy_hash d = rev d"

definition ascii_bytes :: "QString \<Rightarrow> std_string" where
  "ascii_bytes s = map ucast s"

definition example_user :: User where
  "example_user = \<lparr>name = [0x62, 0x6F, 0x62], password_hash = replicate 64 7,
                    flags = 1, sessions = 3\<rparr>"

section \<open>Properties of the session supervisor\<close>

subsection \<open>Auxiliary facts\<close>

declare stop.simps [simp del] dettachSession.simps [simp del]

lemma Host_new_fresh:
  "Host_new dbg st (Some 7) StoppedState 0 0 supply = Inr (fresh_host st supply)"
  by (simp add: Host_new_def fresh_host_def)

lemma start_overwrites:
  "start console (h\<lparr>state := s, attach_timer_id := t\<rparr>) = start console h"
  by (simp add: start_def Let_def startTimer_def log_def split: list.splits)

lemma attachSession_overwrites:
  "attachSession sid (h\<lparr>state := s, session_id := i\<rparr>) = attachSession sid h"
  by (simp add: attachSession_def log_def)

lemma attached_host_reached:
  "run True ''C:/aspia'' [EvStart 1, EvIpcServerStarted ''c1'', EvIpcNewConnection (Some 5)]
     (fresh_host SESSION_TYPE_DESKTOP_MANAGE [1, 2])
   = Inr (attached_host SESSION_TYPE_DESKTOP_MANAGE Account_System ''desktop_manage'' [2])"
  by code_simp

lemma attached_host_reached_file_transfer:
  "run True ''C:/aspia'' [EvStart 1, EvIpcServerStarted ''c1'', EvIpcNewConnection (Some 5)]
     (fresh_host SESSION_TYPE_FILE_TRANSFER [1])
   = Inr (attached_host SESSION_TYPE_FILE_TRANSFER Account_User ''file_transfer'' [])"
  by code_simp

lemma detached_host_reached:
  "run True ''C:/aspia''
     [EvStart 1, EvIpcServerStarted ''c1'', EvIpcNewConnection (Some 5),
      EvSessionChanged WTS_CONSOLE_DISCONNECT 1]
     (fresh_host SESSION_TYPE_DESKTOP_MANAGE [1, 2])
   = Inr detached_host"
  by code_simp

lemma emitted_log [simp]: "emitted h (log es h) = es"
  by (simp add: emitted_def log_def)

lemma stop_Stopped: "state h = StoppedState \<Longrightarrow> stop h = h"
  by (simp add: stop.simps)

lemma dettachSession_idle:
  "state h = StoppedState \<or> state h = DetachedState \<Longrightarrow> dettachSession h = h"
  by (auto simp add: dettachSession.simps)

lemma stop_Detached:
  "state h = DetachedState \<Longrightarrow>
   stop h = log [EmitFinished]
              (if attach_timer_id h \<noteq> 0
               then (killTimer (attach_timer_id h) (h\<lparr>state := StoppedState\<rparr>))
                      \<lparr>attach_timer_id := 0\<rparr>
               else h\<lparr>state := StoppedState\<rparr>)"
  by (subst stop.simps) (simp add: dettachSession_idle Let_def)

lemma state_stop: "state (stop h) = StoppedState"
  by (subst stop.simps) (simp add: Let_def log_def killTimer_def)

text \<open>A second \<open>stop\<close> right after a first one does nothing.\<close>

lemma stop_stop: "stop (stop h) = stop h"
  by (simp add: stop_Stopped state_stop)

lemma stop_emits_finished:
  "state h \<noteq> StoppedState \<Longrightarrow> last (effects (stop h)) = EmitFinished"
  by (subst stop.simps) (simp add: Let_def log_def)

lemma dettachSession_file_transfer:
  assumes "session_type h = SESSION_TYPE_FILE_TRANSFER" and "state h = AttachedState"
  shows "state (dettachSession h) = StoppedState"
    and "emitted h (dettachSession h) =
           (if session_process h \<noteq> None then [ProcessKill, ProcessDelete] else [])
           @ (case ipc_channel h of None \<Rightarrow> [] | Some c \<Rightarrow> [IpcChannelDelete c])
           @ (if attach_timer_id h \<noteq> 0 then [KillTimer (attach_timer_id h)] else [])
           @ [EmitFinished]"
    and "timer_supply (dettachSession h) = timer_supply h"
  using assms
  by (subst dettachSession.simps;
      simp add: Let_def stop_Detached log_def killTimer_def emitted_def split: option.splits)+

subsection \<open>Stopping\<close>

text \<open>
  C1. The claim: \<open>stop\<close> is idempotent from every state; two calls of \<open>stop\<close> in
  sequence give exactly one \<open>finished\<close> notification in total and leave no worker
  process and no IPC channel behind.

  The code does not keep to it. The host of a file transfer session is started, the worker
  connects, and the owner calls \<open>stop\<close> twice. The first \<open>stop\<close> calls
  \<open>dettachSession\<close>, which sets \<open>DetachedState\<close> and, for a file transfer session,
  calls \<open>stop\<close> itself; that inner call is not held back by the guard of \<open>stop\<close>
  (the state is not \<open>StoppedState\<close> yet) and emits \<open>finished\<close>. Back in the outer
  \<open>stop\<close>, \<open>finished\<close> is emitted again. The log ends with two notifications.
\<close>

theorem stop_file_transfer_finished_twice:
  "run True ''C:/aspia''
     [EvStart 1, EvIpcServerStarted ''c1'', EvIpcNewConnection (Some 5), EvStop, EvStop]
     (fresh_host SESSION_TYPE_FILE_TRANSFER [1])
   = Inr \<lparr>session_type = SESSION_TYPE_FILE_TRANSFER, network_channel = Some 7,
          state = StoppedState, session_id = 1, attach_timer_id = 0,
          session_process = None, ipc_channel = None,
          active_timers = [], timer_supply = [],
          effects = [StartTimer 1, NewIpcServer, IpcServerStart,
                     ProcessStart (worker 1 Account_User ''c1'' ''file_transfer''),
                     KillTimer 1, IpcReadMessage, NetReadMessage,
                     ProcessKill, ProcessDelete, IpcChannelDelete 5,
                     EmitFinished, EmitFinished]\<rparr>"
  by code_simp

subsection \<open>Detaching a file transfer session\<close>

text \<open>
  C2. For a file transfer session every detach while attached (a console disconnect, the
  loss of the IPC channel, the exit of the worker) ends in \<open>StoppedState\<close> within the
  same call: the worker and the channel are torn down, \<open>finished\<close> is emitted, no
  new IPC server is created and \<open>startTimer\<close> is not called.
\<close>

theorem file_transfer_detach_stops:
  assumes "session_type h = SESSION_TYPE_FILE_TRANSFER" and "state h = AttachedState"
    and "e = EvSessionChanged WTS_CONSOLE_DISCONNECT sid \<or> e = EvIpcDisconnected
         \<or> e = EvProcessFinished"
  shows "\<exists>h'. dispatch dbg dir e h = Inr h'
            \<and> state h' = StoppedState
            \<and> emitted h h' =
                (if session_process h \<noteq> None then [ProcessKill, ProcessDelete] else [])
                @ (case ipc_channel h of None \<Rightarrow> [] | Some c \<Rightarrow> [IpcChannelDelete c])
                @ (if attach_timer_id h \<noteq> 0 then [KillTimer (attach_timer_id h)] else [])
                @ [EmitFinished]
            \<and> (\<forall>t. StartTimer t \<notin> set (emitted h h'))
            \<and> NewIpcServer \<notin> set (emitted h h')
            \<and> timer_supply h' = timer_supply h"
proof -
  have d: "dispatch dbg dir e h = Inr (dettachSession h)"
    using assms(2,3)
    by (auto simp: sessionChanged_def WTS_CONSOLE_CONNECT_def WTS_CONSOLE_DISCONNECT_def)
  show ?thesis
    unfolding d using dettachSession_file_transfer [OF assms(1,2)]
    by (auto split: option.splits)
qed

theorem file_transfer_detach_stops_witness:
  "session_type (attached_host SESSION_TYPE_FILE_TRANSFER Account_User ''file_transfer'' [3])
     = SESSION_TYPE_FILE_TRANSFER
   \<and> state (attached_host SESSION_TYPE_FILE_TRANSFER Account_User ''file_transfer'' [3])
     = AttachedState
   \<and> (\<exists>h'. dispatch True ''C:/aspia'' EvIpcDisconnected
             (attached_host SESSION_TYPE_FILE_TRANSFER Account_User ''file_transfer'' [3])
           = Inr h'
         \<and> state h' = StoppedState
         \<and> emitted (attached_host SESSION_TYPE_FILE_TRANSFER Account_User ''file_transfer'' [3]) h'
           = [ProcessKill, ProcessDelete, IpcChannelDelete 5, EmitFinished]
         \<and> timer_supply h' = [3])"
  using file_transfer_detach_stops
          [of "attached_host SESSION_TYPE_FILE_TRANSFER Account_User ''file_transfer'' [3]"
              EvIpcDisconnected 0 True "''C:/aspia''"]
  by (simp add: attached_host_def)

subsection \<open>The attach timer\<close>

text \<open>
  C3. The claim: in every reachable state at most one attach timer is armed, and a timer is
  armed only in \<open>StartingState\<close> or \<open>DetachedState\<close>.

  The code does not keep to it. The host is started (timer 1 is armed), the IPC server
  reports that it listens and the worker is launched; the worker exits before it has
  connected. Its \<open>finished\<close> signal runs \<open>dettachSession\<close> in \<open>StartingState\<close>,
  which stores the id of a new timer in \<open>attach_timer_id_\<close> without a \<open>killTimer\<close>
  for the one that is still running: two timers are armed. A \<open>stop\<close> after that
  kills only the second one, and timer 1 stays armed in \<open>StoppedState\<close>.
\<close>

theorem worker_exit_while_starting_arms_second_timer:
  "run True ''C:/aspia'' [EvStart 1, EvIpcServerStarted ''c1'', EvProcessFinished]
     (fresh_host SESSION_TYPE_DESKTOP_MANAGE [1, 2])
   = Inr \<lparr>session_type = SESSION_TYPE_DESKTOP_MANAGE, network_channel = Some 7,
          state = DetachedState, session_id = 1, attach_timer_id = 2,
          session_process = None, ipc_channel = None,
          active_timers = [1, 2], timer_supply = [],
          effects = [StartTimer 1, NewIpcServer, IpcServerStart,
                     ProcessStart (worker 1 Account_System ''c1'' ''desktop_manage''),
                     ProcessKill, ProcessDelete, StartTimer 2]\<rparr>
   \<and> run True ''C:/aspia'' [EvStart 1, EvIpcServerStarted ''c1'', EvProcessFinished, EvStop]
     (fresh_host SESSION_TYPE_DESKTOP_MANAGE [1, 2])
   = Inr \<lparr>session_type = SESSION_TYPE_DESKTOP_MANAGE, network_channel = Some 7,
          state = StoppedState, session_id = 1, attach_timer_id = 0,
          session_process = None, ipc_channel = None,
          active_timers = [1], timer_supply = [],
          effects = [StartTimer 1, NewIpcServer, IpcServerStart,
                     ProcessStart (worker 1 Account_System ''c1'' ''desktop_manage''),
                     ProcessKill, ProcessDelete, StartTimer 2, KillTimer 2,
                     EmitFinished]\<rparr>"
  by code_simp

subsection \<open>Console connect events\<close>

text \<open>
  C4, as claimed: a console connect event delivered in \<open>DetachedState\<close> disarms any
  running timeout timer. It does not: on \<open>detached_host\<close> (reached by a start, an attach
  and a console disconnect) timer 2 runs, and after the connect event for session 9 it
  still runs, no \<open>killTimer\<close> has been called, and its expiry stops the host.
\<close>

theorem reconnect_timer_still_armed:
  "state detached_host = DetachedState
   \<and> active_timers detached_host = [2]
   \<and> active_timers (sessionChanged WTS_CONSOLE_CONNECT 9 detached_host) = [2]
   \<and> attach_timer_id (sessionChanged WTS_CONSOLE_CONNECT 9 detached_host) = 2
   \<and> emitted detached_host (sessionChanged WTS_CONSOLE_CONNECT 9 detached_host)
       = [NewIpcServer, IpcServerStart]
   \<and> state (timerEvent 2 (sessionChanged WTS_CONSOLE_CONNECT 9 detached_host)) = StoppedState"
  by code_simp

text \<open>
  C4, amended. A console connect event with session id \<open>sid\<close> delivered in
  \<open>DetachedState\<close> sets \<open>StartingState\<close>, records \<open>sid\<close> and creates and starts a
  new IPC server; it leaves \<open>attach_timer_id_\<close> and the running timers as they are.
  When that server reports its channel id, the worker is launched for session \<open>sid\<close>
  with that channel id, the timer still running. The timer is disarmed when the worker
  connects (\<open>ipcNewConnection\<close>, which asserts that the timer is armed). Until then
  its expiry stops the host, right after the connect event as well as after the launch
  of the worker: the state is \<open>StoppedState\<close> and \<open>finished\<close> is the last thing
  the host has done.
\<close>

theorem reconnect_restarts_attach_keeps_timer:
  assumes "state h = DetachedState"
  shows "sessionChanged WTS_CONSOLE_CONNECT sid h
           = log [NewIpcServer, IpcServerStart] (h\<lparr>state := StartingState, session_id := sid\<rparr>)
       \<and> attach_timer_id (sessionChanged WTS_CONSOLE_CONNECT sid h) = attach_timer_id h
       \<and> active_timers (sessionChanged WTS_CONSOLE_CONNECT sid h) = active_timers h
       \<and> state (timerEvent (attach_timer_id h) (sessionChanged WTS_CONSOLE_CONNECT sid h))
           = StoppedState
       \<and> last (effects (timerEvent (attach_timer_id h) (sessionChanged WTS_CONSOLE_CONNECT sid h)))
           = EmitFinished
       \<and> (session_process h = None \<and> (\<forall>n. session_type h \<noteq> SESSION_TYPE_OTHER n) \<longrightarrow>
            (\<exists>h' p. ipcServerStarted dbg dir cid (sessionChanged WTS_CONSOLE_CONNECT sid h) = Inr h'
                  \<and> session_process h' = Some p
                  \<and> emitted (sessionChanged WTS_CONSOLE_CONNECT sid h) h' = [ProcessStart p]
                  \<and> hp_session_id p = Some sid
                  \<and> take 3 (hp_arguments p) = [''--channel_id'', cid, ''--session_type'']
                  \<and> active_timers h' = active_timers h
                  \<and> attach_timer_id h' = attach_timer_id h
                  \<and> state (timerEvent (attach_timer_id h) h') = StoppedState
                  \<and> last (effects (timerEvent (attach_timer_id h) h')) = EmitFinished
                  \<and> (attach_timer_id h \<noteq> 0 \<and> network_channel h \<noteq> None \<longrightarrow>
                       (\<exists>h''. ipcNewConnection dbg (Some c) h' = Inr h''
                           \<and> state h'' = AttachedState
                           \<and> attach_timer_id h'' = 0
                           \<and> active_timers h'' = removeAll (attach_timer_id h) (active_timers h)
                           \<and> emitted h' h''
                               = [KillTimer (attach_timer_id h), IpcReadMessage, NetReadMessage]))))"
proof -
  let ?h1 = "sessionChanged WTS_CONSOLE_CONNECT sid h"
  have eq: "?h1 = log [NewIpcServer, IpcServerStart] (h\<lparr>state := StartingState, session_id := sid\<rparr>)"
    using assms by (simp add: sessionChanged_def attachSession_def)
  have a: "attach_timer_id ?h1 = attach_timer_id h" "active_timers ?h1 = active_timers h"
    "state ?h1 = StartingState" "session_id ?h1 = sid" "session_process ?h1 = session_process h"
    "session_type ?h1 = session_type h" "network_channel ?h1 = network_channel h"
    unfolding eq by (simp_all add: log_def)
  have b: "\<exists>h' p. ipcServerStarted dbg dir cid ?h1 = Inr h'
                  \<and> session_process h' = Some p
                  \<and> emitted ?h1 h' = [ProcessStart p]
                  \<and> hp_session_id p = Some sid
                  \<and> take 3 (hp_arguments p) = [''--channel_id'', cid, ''--session_type'']
                  \<and> active_timers h' = active_timers h
                  \<and> attach_timer_id h' = attach_timer_id h
                  \<and> state (timerEvent (attach_timer_id h) h') = StoppedState
                  \<and> last (effects (timerEvent (attach_timer_id h) h')) = EmitFinished
                  \<and> (attach_timer_id h \<noteq> 0 \<and> network_channel h \<noteq> None \<longrightarrow>
                       (\<exists>h''. ipcNewConnection dbg (Some c) h' = Inr h''
                           \<and> state h'' = AttachedState
                           \<and> attach_timer_id h'' = 0
                           \<and> active_timers h'' = removeAll (attach_timer_id h) (active_timers h)
                           \<and> emitted h' h''
                               = [KillTimer (attach_timer_id h), IpcReadMessage, NetReadMessage]))"
    if "session_process h = None" and "\<forall>n. session_type h \<noteq> SESSION_TYPE_OTHER n"
  proof -
    have "\<exists>h' p. ipcServerStarted dbg dir cid ?h1 = Inr h'
                  \<and> session_process h' = Some p
                  \<and> emitted ?h1 h' = [ProcessStart p]
                  \<and> hp_session_id p = Some sid
                  \<and> take 3 (hp_arguments p) = [''--channel_id'', cid, ''--session_type'']
                  \<and> active_timers h' = active_timers h
                  \<and> attach_timer_id h' = attach_timer_id h
                  \<and> state h' = StartingState
                  \<and> (attach_timer_id h \<noteq> 0 \<and> network_channel h \<noteq> None \<longrightarrow>
                       (\<exists>h''. ipcNewConnection dbg (Some c) h' = Inr h''
                           \<and> state h'' = AttachedState
                           \<and> attach_timer_id h'' = 0
                           \<and> active_timers h'' = removeAll (attach_timer_id h) (active_timers h)
                           \<and> emitted h' h''
                               = [KillTimer (attach_timer_id h), IpcReadMessage, NetReadMessage]))"
      using that a
      by (cases "session_type h")
         (simp_all add: ipcServerStarted_def launch_def Let_def new_HostProcess_def log_def
            emitted_def ipcNewConnection_def killTimer_def)
    then obtain h' p where h': "ipcServerStarted dbg dir cid ?h1 = Inr h'"
        "session_process h' = Some p" "emitted ?h1 h' = [ProcessStart p]"
        "hp_session_id p = Some sid"
        "take 3 (hp_arguments p) = [''--channel_id'', cid, ''--session_type'']"
        "active_timers h' = active_timers h" "attach_timer_id h' = attach_timer_id h"
        "state h' = StartingState"
        "attach_timer_id h \<noteq> 0 \<and> network_channel h \<noteq> None \<longrightarrow>
           (\<exists>h''. ipcNewConnection dbg (Some c) h' = Inr h''
               \<and> state h'' = AttachedState
               \<and> attach_timer_id h'' = 0
               \<and> active_timers h'' = removeAll (attach_timer_id h) (active_timers h)
               \<and> emitted h' h''
                   = [KillTimer (attach_timer_id h), IpcReadMessage, NetReadMessage])"
      by blast
    have "timerEvent (attach_timer_id h) h' = stop h'"
      using h'(7) by (simp add: timerEvent_def)
    then have "state (timerEvent (attach_timer_id h) h') = StoppedState"
      "last (effects (timerEvent (attach_timer_id h) h')) = EmitFinished"
      using h'(8) by (simp_all add: state_stop stop_emits_finished)
    with h' show ?thesis by blast
  qed
  have t: "timerEvent (attach_timer_id h) ?h1 = stop ?h1"
    using a(1) by (simp add: timerEvent_def)
  have e: "state (timerEvent (attach_timer_id h) ?h1) = StoppedState"
    "last (effects (timerEvent (attach_timer_id h) ?h1)) = EmitFinished"
    unfolding t using a(3) by (simp_all add: state_stop stop_emits_finished)
  show ?thesis using eq a(1,2) e b by blast
qed

theorem reconnect_restarts_attach_keeps_timer_witness:
  "state detached_host = DetachedState
   \<and> sessionChanged WTS_CONSOLE_CONNECT 9 detached_host
       = log [NewIpcServer, IpcServerStart]
           (detached_host\<lparr>state := StartingState, session_id := 9\<rparr>)
   \<and> active_timers (sessionChanged WTS_CONSOLE_CONNECT 9 detached_host) = [2]
   \<and> state (timerEvent 2 (sessionChanged WTS_CONSOLE_CONNECT 9 detached_host)) = StoppedState
   \<and> last (effects (timerEvent 2 (sessionChanged WTS_CONSOLE_CONNECT 9 detached_host)))
       = EmitFinished
   \<and> (\<exists>h' p. ipcServerStarted True ''C:/aspia'' ''c2''
                (sessionChanged WTS_CONSOLE_CONNECT 9 detached_host) = Inr h'
            \<and> session_process h' = Some p
            \<and> hp_session_id p = Some 9
            \<and> active_timers h' = [2]
            \<and> state (timerEvent 2 h') = StoppedState
            \<and> (\<exists>h''. ipcNewConnection True (Some 6) h' = Inr h''
                    \<and> state h'' = AttachedState \<and> active_timers h'' = []))"
proof -
  have d: "state detached_host = DetachedState"
    and p: "session_process detached_host = None"
    and t: "\<forall>n. session_type detached_host \<noteq> SESSION_TYPE_OTHER n"
    and n: "attach_timer_id detached_host = 2" "network_channel detached_host \<noteq> None"
      "active_timers detached_host = [2]"
    by (simp_all add: detached_host_def)
  from reconnect_restarts_attach_keeps_timer
         [OF d, of 9 True "''C:/aspia''" "''c2''" 6] p t n
  show ?thesis using d by auto
qed

text \<open>
  C9. A console connect event delivered in \<open>AttachedState\<close> starts a new attach
  sequence: the state is \<open>StartingState\<close>, the session id is the new one, a new IPC
  server is created and started. That is all it does: the worker process and the IPC
  channel of the running attachment stay in place, neither killed nor deleted.
\<close>

theorem connect_while_attached_keeps_worker:
  assumes "state h = AttachedState"
  shows "dispatch dbg dir (EvSessionChanged WTS_CONSOLE_CONNECT sid) h
           = Inr (sessionChanged WTS_CONSOLE_CONNECT sid h)
       \<and> sessionChanged WTS_CONSOLE_CONNECT sid h
           = log [NewIpcServer, IpcServerStart] (h\<lparr>state := StartingState, session_id := sid\<rparr>)
       \<and> state (sessionChanged WTS_CONSOLE_CONNECT sid h) = StartingState
       \<and> session_id (sessionChanged WTS_CONSOLE_CONNECT sid h) = sid
       \<and> session_process (sessionChanged WTS_CONSOLE_CONNECT sid h) = session_process h
       \<and> ipc_channel (sessionChanged WTS_CONSOLE_CONNECT sid h) = ipc_channel h
       \<and> emitted h (sessionChanged WTS_CONSOLE_CONNECT sid h) = [NewIpcServer, IpcServerStart]"
  using assms by (simp add: sessionChanged_def attachSession_def log_def emitted_def)

theorem connect_while_attached_keeps_worker_witness:
  "state (attached_host SESSION_TYPE_DESKTOP_MANAGE Account_System ''desktop_manage'' [2])
     = AttachedState
   \<and> state (sessionChanged WTS_CONSOLE_CONNECT 9
        (attached_host SESSION_TYPE_DESKTOP_MANAGE Account_System ''desktop_manage'' [2]))
     = StartingState
   \<and> session_process (sessionChanged WTS_CONSOLE_CONNECT 9
        (attached_host SESSION_TYPE_DESKTOP_MANAGE Account_System ''desktop_manage'' [2]))
     = Some (worker 1 Account_System ''c1'' ''desktop_manage'')
   \<and> ipc_channel (sessionChanged WTS_CONSOLE_CONNECT 9
        (attached_host SESSION_TYPE_DESKTOP_MANAGE Account_System ''desktop_manage'' [2]))
     = Some 5"
  using connect_while_attached_keeps_worker
          [of "attached_host SESSION_TYPE_DESKTOP_MANAGE Account_System ''desktop_manage'' [2]"
              True "''C:/aspia''" 9]
  by (simp add: attached_host_def log_def)

subsection \<open>Launching the worker\<close>

text \<open>
  C6. When the IPC server reports its channel id, the worker is configured and started:
  under the system account for the two desktop session types and under the user account
  for a file transfer session, with the arguments \<open>--channel_id <id> --session_type\<close>
  and the token of the session type. For any other session type the call ends in
  \<open>qFatal\<close>: the program is over, nothing is returned. (In a debug build the two
  assertions at the head of the method come first; the hypothesis says they hold.)
\<close>

theorem worker_launch:
  assumes "dbg \<longrightarrow> state h = StartingState \<and> session_process h = None"
  shows "(session_type h = SESSION_TYPE_DESKTOP_MANAGE \<longrightarrow>
            ipcServerStarted dbg dir cid h
              = Inr (launch \<lparr>hp_session_id = Some (session_id h),
                             hp_program = Some (dir @ ''/aspia_host.exe''),
                             hp_account = Some Account_System, hp_arguments = []\<rparr>
                       [''--channel_id'', cid, ''--session_type'', ''desktop_manage''] h))
       \<and> (session_type h = SESSION_TYPE_DESKTOP_VIEW \<longrightarrow>
            ipcServerStarted dbg dir cid h
              = Inr (launch \<lparr>hp_session_id = Some (session_id h),
                             hp_program = Some (dir @ ''/aspia_host.exe''),
                             hp_account = Some Account_System, hp_arguments = []\<rparr>
                       [''--channel_id'', cid, ''--session_type'', ''desktop_view''] h))
       \<and> (session_type h = SESSION_TYPE_FILE_TRANSFER \<longrightarrow>
            ipcServerStarted dbg dir cid h
              = Inr (launch \<lparr>hp_session_id = Some (session_id h),
                             hp_program = Some (dir @ ''/aspia_host.exe''),
                             hp_account = Some Account_User, hp_arguments = []\<rparr>
                       [''--channel_id'', cid, ''--session_type'', ''file_transfer''] h))
       \<and> (\<forall>n. session_type h = SESSION_TYPE_OTHER n \<longrightarrow>
            ipcServerStarted dbg dir cid h = Inl (Fatal ''Unknown session type''))
       \<and> (\<forall>p args. emitted h (launch p args h) = [ProcessStart (p\<lparr>hp_arguments := args\<rparr>)]
            \<and> session_process (launch p args h) = Some (p\<lparr>hp_arguments := args\<rparr>))"
proof -
  have l: "\<forall>p args. emitted h (launch p args h) = [ProcessStart (p\<lparr>hp_arguments := args\<rparr>)]
            \<and> session_process (launch p args h) = Some (p\<lparr>hp_arguments := args\<rparr>)"
    by (simp add: launch_def emitted_def log_def)
  have s: "(dbg \<and> state h \<noteq> StartingState) = False"
    "(dbg \<and> session_process h \<noteq> None) = False"
    using assms by auto
  show ?thesis
    using l unfolding ipcServerStarted_def s
    by (cases "session_type h") (simp_all add: Let_def new_HostProcess_def)
qed

theorem worker_launch_witness:
  "ipcServerStarted True ''C:/aspia'' ''c1''
     ((fresh_host SESSION_TYPE_FILE_TRANSFER [])\<lparr>state := StartingState, session_id := 4\<rparr>)
   = Inr (launch \<lparr>hp_session_id = Some 4, hp_program = Some ''C:/aspia/aspia_host.exe'',
                  hp_account = Some Account_User, hp_arguments = []\<rparr>
            [''--channel_id'', ''c1'', ''--session_type'', ''file_transfer'']
            ((fresh_host SESSION_TYPE_FILE_TRANSFER [])\<lparr>state := StartingState, session_id := 4\<rparr>))
   \<and> ipcServerStarted True ''C:/aspia'' ''c1''
     ((fresh_host (SESSION_TYPE_OTHER 0) [])\<lparr>state := StartingState, session_id := 4\<rparr>)
   = Inl (Fatal ''Unknown session type'')"
  using worker_launch
          [of True "(fresh_host SESSION_TYPE_FILE_TRANSFER [])\<lparr>state := StartingState, session_id := 4\<rparr>"
              "''C:/aspia''" "''c1''"]
        worker_launch
          [of True "(fresh_host (SESSION_TYPE_OTHER 0) [])\<lparr>state := StartingState, session_id := 4\<rparr>"
              "''C:/aspia''" "''c1''"]
  by (simp add: fresh_host_def)

subsection \<open>Messages with no peer\<close>

text \<open>
  C10. A message from the network that arrives while the host has no IPC channel is
  dropped: the call changes nothing, so the message is neither written anywhere nor
  kept. The same holds for a message from the IPC channel while the pointer to the
  network channel is null.
\<close>

theorem message_without_peer_dropped:
  "(ipc_channel h = None \<longrightarrow>
      networkMessageReceived buffer h = h
      \<and> dispatch dbg dir (EvNetworkMessageReceived buffer) h = Inr h)
   \<and> (network_channel h = None \<longrightarrow>
      ipcMessageReceived buffer h = h
      \<and> dispatch dbg dir (EvIpcMessageReceived buffer) h = Inr h)"
  by (simp add: networkMessageReceived_def ipcMessageReceived_def)

theorem message_without_peer_dropped_witness:
  "ipc_channel (detached_host\<lparr>network_channel := None\<rparr>) = None
   \<and> network_channel (detached_host\<lparr>network_channel := None\<rparr>) = None
   \<and> networkMessageReceived [1, 2, 3] (detached_host\<lparr>network_channel := None\<rparr>)
       = detached_host\<lparr>network_channel := None\<rparr>
   \<and> ipcMessageReceived [1, 2, 3] (detached_host\<lparr>network_channel := None\<rparr>)
       = detached_host\<lparr>network_channel := None\<rparr>"
  using message_without_peer_dropped
          [of "detached_host\<lparr>network_channel := None\<rparr>" "[1, 2, 3]" True "''C:/aspia''"]
  by (simp add: detached_host_def)

subsection \<open>The relay\<close>






lemma attached_links_reached:
  "relay_run True ''C:/aspia'' [EvStart 1, EvIpcServerStarted ''c1'', EvIpcNewConnection (Some 5)]
     (fresh_host SESSION_TYPE_DESKTOP_MANAGE [1, 2], no_links)
   = Some (attached_host SESSION_TYPE_DESKTOP_MANAGE Account_System ''desktop_manage'' [2],
           attached_links)"
  by code_simp




section \<open>Properties of the credential record\<close>

subsection \<open>Auxiliary facts\<close>

declare createPasswordHash_loop.simps [simp del] isValidName_loop.simps [simp del]

lemma createPasswordHash_loop_eq:
  "createPasswordHash_loop hash i (d, n)
     = ((hash ^^ nat (kIterCount - i)) d, n + nat (kIterCount - i))"
proof (induction hash i "(d, n)" arbitrary: d n rule: createPasswordHash_loop.induct)
  case (1 hash i d n)
  show ?case
  proof (cases "i < kIterCount")
    case True
    then have k: "nat (kIterCount - i) = Suc (nat (kIterCount - (i + 1)))"
      by simp
    show ?thesis
      using True "1.hyps" [OF True]
      by (subst createPasswordHash_loop.simps) (simp add: k funpow_Suc_right del: funpow.simps)
  next
    case False
    then show ?thesis
      by (subst createPasswordHash_loop.simps) simp
  qed
qed

lemma createPasswordHash_eq:
  "createPasswordHash hash password calls = ((hash ^^ 100000) password, calls + 100000)"
  by (simp add: createPasswordHash_def createPasswordHash_loop_eq kIterCount_def)

lemma isValidName_loop_eq:
  "0 \<le> i \<Longrightarrow> len = int (length v) \<Longrightarrow>
   isValidName_loop isLetter isDigit v len i
     = (\<forall>c \<in> set (drop (nat i) v). isValidUserNameChar isLetter isDigit c)"
proof (induction isLetter isDigit v len i rule: isValidName_loop.induct)
  case (1 isLetter isDigit v len i)
  show ?case
  proof (cases "i < len")
    case True
    then have d: "drop (nat i) v = v ! nat i # drop (nat (i + 1)) v"
      using "1.prems" by (simp add: Cons_nth_drop_Suc nat_add_distrib)
    show ?thesis
    proof (cases "isValidUserNameChar isLetter isDigit (v ! nat i)")
      case True
      with \<open>i < len\<close> "1.IH" "1.prems" show ?thesis
        by (subst isValidName_loop.simps) (simp add: d)
    next
      case False
      with \<open>i < len\<close> show ?thesis
        by (subst isValidName_loop.simps) (simp add: d)
    qed
  next
    case False
    then show ?thesis
      using "1.prems" by (subst isValidName_loop.simps) simp
  qed
qed

lemma isValidName_iff:
  "isValidName C isLetter isDigit v
     \<longleftrightarrow> v \<noteq> [] \<and> int (length v) \<le> kMaxUserNameLength C
         \<and> (\<forall>c \<in> set v. isValidUserNameChar isLetter isDigit c)"
  by (auto simp add: isValidName_def Let_def isValidName_loop_eq)

lemma isValidPassword_iff:
  "isValidPassword C v
     \<longleftrightarrow> kMinPasswordLength C \<le> int (length v) \<and> int (length v) \<le> kMaxPasswordLength C"
  by (auto simp add: isValidPassword_def Let_def)

subsection \<open>Rejected input\<close>

text \<open>
  C7. \<open>setName\<close>, \<open>setPassword\<close> and \<open>setPasswordHash\<close> answer \<open>false\<close> and leave
  the record as it is when the input is not valid: a name that is empty, longer than the
  bound or has a character outside letters, digits, \<open>.\<close>, \<open>_\<close> and \<open>-\<close>; a
  password shorter than the lower or longer than the upper bound; a digest whose number of
  bytes is not the fixed one.
\<close>

theorem rejected_input_leaves_record:
  "(v = [] \<or> int (length v) > kMaxUserNameLength C
      \<or> (\<exists>c \<in> set v. \<not> isLetter c \<and> \<not> isDigit c \<and> c \<noteq> 0x2E \<and> c \<noteq> 0x5F \<and> c \<noteq> 0x2D)
      \<longrightarrow> setName C isLetter isDigit v u = (False, u))
   \<and> (int (length pw) < kMinPasswordLength C \<or> int (length pw) > kMaxPasswordLength C
      \<longrightarrow> setPassword C hash toStdString pw u calls = (False, u, calls))
   \<and> (length digest \<noteq> kPasswordHashLength C
      \<longrightarrow> setPasswordHash C digest u = (False, u))"
proof -
  have "\<not> isValidName C isLetter isDigit v"
    if "v = [] \<or> int (length v) > kMaxUserNameLength C
      \<or> (\<exists>c \<in> set v. \<not> isLetter c \<and> \<not> isDigit c \<and> c \<noteq> 0x2E \<and> c \<noteq> 0x5F \<and> c \<noteq> 0x2D)"
    using that by (auto simp add: isValidName_iff isValidUserNameChar_def)
  moreover have "\<not> isValidPassword C pw"
    if "int (length pw) < kMinPasswordLength C \<or> int (length pw) > kMaxPasswordLength C"
    using that by (auto simp add: isValidPassword_iff)
  ultimately show ?thesis
    by (simp add: setName_def setPassword_def setPasswordHash_def isValidPasswordHash_def)
qed

theorem rejected_input_leaves_record_witness:
  "setName example_consts ascii_letter ascii_digit [0x61, 0x20, 0x62] example_user
     = (False, example_user)
   \<and> setPassword example_consts toy_hash ascii_bytes [0x61, 0x62, 0x63] example_user 0
     = (False, example_user, 0)
   \<and> setPasswordHash example_consts [1, 2, 3] example_user = (False, example_user)"
  using rejected_input_leaves_record
          [of "[0x61, 0x20, 0x62]" example_consts ascii_letter ascii_digit example_user
              "[0x61, 0x62, 0x63]" toy_hash ascii_bytes 0 "[1, 2, 3]"]
  by (simp add: example_consts_def ascii_letter_def ascii_digit_def)

subsection \<open>The stored digest\<close>

text \<open>
  C8. For a password whose length is within the bounds, \<open>setPassword\<close> stores the
  hash function applied 100000 times to the UTF-8 encoding of the password, and the hash
  function has been called 100000 times. For any other password the call answers
  \<open>false\<close> with the record unchanged and without a single call of the hash function.
\<close>

theorem setPassword_digest:
  "(kMinPasswordLength C \<le> int (length pw) \<and> int (length pw) \<le> kMaxPasswordLength C
      \<longrightarrow> setPassword C hash toStdString pw u calls
            = (True, u\<lparr>password_hash := (hash ^^ 100000) (toStdString pw)\<rparr>, calls + 100000))
   \<and> (\<not> (kMinPasswordLength C \<le> int (length pw) \<and> int (length pw) \<le> kMaxPasswordLength C)
      \<longrightarrow> setPassword C hash toStdString pw u calls = (False, u, calls))"
  by (simp add: setPassword_def isValidPassword_iff createPasswordHash_eq Let_def)

theorem setPassword_digest_witness:
  "setPassword example_consts toy_hash ascii_bytes
     [0x70, 0x61, 0x73, 0x73, 0x77, 0x6F, 0x72, 0x64] example_user 0
     = (True,
        example_user\<lparr>password_hash :=
          (toy_hash ^^ 100000) (ascii_bytes [0x70, 0x61, 0x73, 0x73, 0x77, 0x6F, 0x72, 0x64])\<rparr>,
        100000)
   \<and> setPassword example_consts toy_hash ascii_bytes [0x70, 0x61] example_user 0
     = (False, example_user, 0)"
  using setPassword_digest
          [of example_consts "[0x70, 0x61, 0x73, 0x73, 0x77, 0x6F, 0x72, 0x64]"
              toy_hash ascii_bytes example_user 0]
        setPassword_digest
          [of example_consts "[0x70, 0x61]" toy_hash ascii_bytes example_user 0]
  by (simp add: example_consts_def)

end
